theory Spec2Isabelle
  imports Main
begin

section \<open>Values of the program\<close>

text \<open>
  The program is \<^verbatim>\<open>src/index.cjs\<close>: an Express middleware around a Telegram
  bot client. Objects of the wire format are records whose optional keys are
  \<open>option\<close> fields (\<open>None\<close> is JavaScript's \<^verbatim>\<open>undefined\<close>); an object, once
  present, is truthy. Every \<^verbatim>\<open>throw\<close>, every rejected promise and every
  property access on \<^verbatim>\<open>undefined\<close> is a value of type \<open>exn\<close>.
\<close>

datatype exn =
    Error string
  | TypeError
  | SyntaxError

definition TELEGRAM_HOST :: string where
  "TELEGRAM_HOST = ''api.telegram.org''"

definition FORWARD_TIME :: nat where
  "FORWARD_TIME = 1000"

subsection \<open>String coercion\<close>

text \<open>
  \<^verbatim>\<open>String(x)\<close> on a number in the integer range of the platform's
  identifiers (decimal digits, a leading minus sign) and on \<^verbatim>\<open>undefined\<close>.
\<close>

fun digits_of :: "nat \<Rightarrow> string" where
  "digits_of n =
     (if n < 10 then [''0123456789'' ! n]
      else digits_of (n div 10) @ [''0123456789'' ! (n mod 10)])"

declare digits_of.simps [simp del]

definition String_of_int :: "int \<Rightarrow> string" where
  "String_of_int i = (if i < 0 then CHR ''-'' # digits_of (nat (- i)) else digits_of (nat i))"

definition String_of_id :: "int option \<Rightarrow> string" where
  "String_of_id x = (case x of None \<Rightarrow> ''undefined'' | Some i \<Rightarrow> String_of_int i)"

definition String_of_str :: "string option \<Rightarrow> string" where
  "String_of_str x = (case x of None \<Rightarrow> ''undefined'' | Some s \<Rightarrow> s)"

text \<open>Truthiness of an optional string: absent and the empty string are falsy.\<close>

definition truthy_str :: "string option \<Rightarrow> bool" where
  "truthy_str x = (case x of None \<Rightarrow> False | Some s \<Rightarrow> s \<noteq> [])"

subsection \<open>Messages\<close>

record user =
  user_id :: int
  is_bot :: bool

record chat =
  chat_id :: int
  chat_type :: string

record contact =
  contact_user_id :: "int option"

record entity =
  entity_type :: string

text \<open>The value \<^verbatim>\<open>getTelegramFile\<close> returns, stored under the key \<^verbatim>\<open>file\<close>.\<close>

record tfile =
  file_path :: "string option"
  url :: string

record thumb =
  thumb_file_id :: "string option"
  thumb_file :: "tfile option"

text \<open>
  An attachment block (\<^verbatim>\<open>voice\<close>, \<^verbatim>\<open>document\<close>, \<^verbatim>\<open>video\<close>, \<^verbatim>\<open>audio\<close>,
  \<^verbatim>\<open>video_note\<close>), and one size variant of \<^verbatim>\<open>photo\<close>. \<open>att_other\<close> and
  \<open>photo_other\<close> stand for the keys the program never reads.
\<close>

record attachment =
  file_id :: "string option"
  thumb :: "thumb option"
  thumbnail :: "thumb option"
  att_file :: "tfile option"
  att_other :: "(string \<times> string) list"

record photo_size =
  photo_file_id :: "string option"
  photo_file_size :: "int option"
  photo_file :: "tfile option"
  photo_other :: "(string \<times> string) list"

text \<open>
  A message. \<open>msg_type\<close> is the key \<^verbatim>\<open>type\<close> that \<^verbatim>\<open>api\<close> adds (the update
  kind); \<open>reply_to_message\<close> records whether that key holds an object;
  \<open>msg_other\<close> stands for every key the program never reads.
\<close>

record msg =
  msg_chat :: "chat option"
  msg_from :: "user option"
  forward_from :: "user option"
  forward_from_chat :: "chat option"
  contact :: "contact option"
  msg_text :: "string option"
  msg_type :: "string option"
  reply_to_message :: bool
  entities :: "entity list option"
  voice :: "attachment option"
  document :: "attachment option"
  video :: "attachment option"
  audio :: "attachment option"
  photo :: "photo_size list option"
  video_note :: "attachment option"
  msg_other :: "(string \<times> string) list"

record callback_query =
  cq_id :: string
  cq_data :: "string option"
  cq_message :: "msg option"

record inline_query =
  iq_id :: string
  iq_chat_type :: "string option"

text \<open>The body of a webhook request: the update as the platform sends it.\<close>

record body =
  b_message :: "msg option"
  b_edited_message :: "msg option"
  b_channel_post :: "msg option"
  b_callback_query :: "callback_query option"
  b_inline_query :: "inline_query option"

section \<open>getMessageFromBody\<close>

record normalized =
  n_type :: string
  n_message :: msg
  n_chatId :: string
  n_userId :: string

text \<open>
  Lines 32 to 39: the identifiers, read through \<^verbatim>\<open>?.\<close> and coerced to a
  string.
\<close>

definition pack :: "string \<Rightarrow> msg \<Rightarrow> normalized" where
  "pack ty m =
     \<lparr> n_type = ty, n_message = m,
       n_chatId = String_of_id (map_option chat_id (msg_chat m)),
       n_userId = String_of_id (map_option user_id (msg_from m)) \<rparr>"

text \<open>
  Lines 13 to 40. In the \<^verbatim>\<open>callback_query\<close> branch \<^verbatim>\<open>message\<close> is the query's
  embedded message, which the platform leaves out for a query that comes from
  an inline message; reading \<^verbatim>\<open>message.chat\<close> then raises a TypeError.
\<close>

definition getMessageFromBody :: "body \<Rightarrow> exn + normalized" where
  "getMessageFromBody b =
     (case b_message b of Some m \<Rightarrow> Inr (pack ''message'' m)
      | None \<Rightarrow>
     (case b_edited_message b of Some m \<Rightarrow> Inr (pack ''edited_message'' m)
      | None \<Rightarrow>
     (case b_channel_post b of Some m \<Rightarrow> Inr (pack ''channel_post'' m)
      | None \<Rightarrow>
     (case b_callback_query b of
        Some q \<Rightarrow>
          (case cq_message q of
             Some m \<Rightarrow> Inr (pack ''callback_query'' m)
           | None \<Rightarrow> Inl TypeError)
      | None \<Rightarrow> Inl (Error ''Unknown Telegram Body'')))))"

section \<open>getEventName\<close>

record metadata =
  md_type :: string

text \<open>
  \<^verbatim>\<open>new RegExp(source, flags)\<close> belongs to the language, not to the program:
  it is a parameter. It raises a SyntaxError on a source or on flags it does
  not accept; otherwise it gives the test \<^verbatim>\<open>regex.exec(text)\<close> is truthy.
\<close>

type_synonym regexp = "string \<Rightarrow> bool"
type_synonym regexp_ctor = "string \<Rightarrow> string \<Rightarrow> exn + regexp"

text \<open>\<^verbatim>\<open>str.lastIndexOf(c)\<close>, \<open>-1\<close> when \<open>c\<close> does not occur.\<close>

fun lastIndexOf_from :: "char \<Rightarrow> string \<Rightarrow> int \<Rightarrow> int \<Rightarrow> int" where
  "lastIndexOf_from c [] i found = found"
| "lastIndexOf_from c (x # xs) i found =
     lastIndexOf_from c xs (i + 1) (if x = c then i else found)"

definition lastIndexOf :: "string \<Rightarrow> char \<Rightarrow> int" where
  "lastIndexOf s c = lastIndexOf_from c s 0 (- 1)"

definition startsWith_slash :: "string \<Rightarrow> bool" where
  "startsWith_slash s = (case s of [] \<Rightarrow> False | x # _ \<Rightarrow> x = CHR ''/'')"

text \<open>
  \<^verbatim>\<open>str.slice(a, b)\<close> and \<^verbatim>\<open>str.slice(a)\<close> for indices that are not negative
  (an end before the start gives the empty string).
\<close>

definition slice2 :: "string \<Rightarrow> int \<Rightarrow> int \<Rightarrow> string" where
  "slice2 s a b = take (nat b - nat a) (drop (nat a) s)"

definition slice1 :: "string \<Rightarrow> int \<Rightarrow> string" where
  "slice1 s a = drop (nat a) s"

text \<open>Lines 60 and 61: the pattern rebuilt from a key that starts with a slash.\<close>

definition restoredRegex :: "regexp_ctor \<Rightarrow> string \<Rightarrow> exn + regexp" where
  "restoredRegex mkRegExp str =
     (let lastSlash = lastIndexOf str (CHR ''/'')
      in mkRegExp (slice2 str 1 lastSlash) (slice1 str (lastSlash + 1)))"

text \<open>
  Lines 58 to 67, the loop over the registered keys: \<open>Inr (Some str)\<close> is
  \<^verbatim>\<open>return str\<close>, \<open>Inr None\<close> is the loop running to its end, \<open>Inl\<close> an error
  raised on the way. \<^verbatim>\<open>exec\<close> coerces its argument to a string.
\<close>

fun scan_patterns :: "regexp_ctor \<Rightarrow> string list \<Rightarrow> string option \<Rightarrow> exn + string option" where
  "scan_patterns mkRegExp [] txt = Inr None"
| "scan_patterns mkRegExp (str # rest) txt =
     (if startsWith_slash str then
        (case restoredRegex mkRegExp str of
           Inl e \<Rightarrow> Inl e
         | Inr re \<Rightarrow>
             if re (String_of_str txt) then Inr (Some str)
             else scan_patterns mkRegExp rest txt)
      else scan_patterns mkRegExp rest txt)"

text \<open>Lines 68 to 83: the rules tried when no pattern matched.\<close>

definition has_entity :: "string \<Rightarrow> entity list \<Rightarrow> bool" where
  "has_entity ty es = list_ex (\<lambda>e. entity_type e = ty) es"

definition structural :: "msg \<Rightarrow> metadata \<Rightarrow> string" where
  "structural message md =
     (if msg_type message = Some ''edited_message'' then ''edited_message_text''
      else if reply_to_message message then ''reply_to_message''
      else (case entities message of
              None \<Rightarrow> md_type md
            | Some es \<Rightarrow>
                if has_entity ''mention'' es then ''mention''
                else if has_entity ''bot_command'' es then ''bot_command''
                else md_type md))"

text \<open>
  Lines 50 to 55. \<^verbatim>\<open>message.from.is_bot\<close> raises when the message has no
  sender; \<^verbatim>\<open>message.contact.user_id\<close> is read only for a sender that is not a
  bot.
\<close>

definition contact_case :: "msg \<Rightarrow> exn + string" where
  "contact_case message =
     (case msg_from message of
        None \<Rightarrow> Inl TypeError
      | Some sender \<Rightarrow>
          if is_bot sender then Inr ''contact''
          else (case contact message of
                  None \<Rightarrow> Inl TypeError
                | Some c \<Rightarrow>
                    if contact_user_id c = Some (user_id sender) then Inr ''auth_by_contact''
                    else Inr ''contact''))"

definition getEventName :: "regexp_ctor \<Rightarrow> msg \<Rightarrow> metadata \<Rightarrow> string list \<Rightarrow> exn + string" where
  "getEventName mkRegExp message md eventsList =
     (if md_type md = ''contact'' then contact_case message
      else if md_type md = ''text'' then
        (case scan_patterns mkRegExp eventsList (msg_text message) of
           Inl e \<Rightarrow> Inl e
         | Inr (Some str) \<Rightarrow> Inr str
         | Inr None \<Rightarrow> Inr (structural message md))
      else Inr (md_type md))"

section \<open>getTelegramFile and extendMessage\<close>

text \<open>
  \<^verbatim>\<open>this.bot.getFile\<close> is the file-lookup collaborator: given the identifier
  it is called with (possibly \<^verbatim>\<open>undefined\<close>) its promise is rejected (\<open>Inl\<close>) or
  gives an object whose \<^verbatim>\<open>file_path\<close> the program reads. It is a function, so
  it answers the same identifier the same way.
\<close>

type_synonym file_lookup = "string option \<Rightarrow> exn + string option"

text \<open>Lines 321 to 327.\<close>

definition getTelegramFile :: "file_lookup \<Rightarrow> string \<Rightarrow> string option \<Rightarrow> exn + tfile" where
  "getTelegramFile getFile token fileId =
     (case getFile fileId of
        Inl e \<Rightarrow> Inl e
      | Inr fp \<Rightarrow>
          Inr \<lparr> file_path = fp,
                url = ''https://'' @ TELEGRAM_HOST @ ''/file/bot'' @ token @ ''/'' @ String_of_str fp \<rparr>)"

text \<open>
  \<^verbatim>\<open>extendMessage\<close> writes into the message it is given, one block after the
  other, and stops at the first rejected \<^verbatim>\<open>await\<close>. Each step returns the error
  it stopped with, if any, and the object as the step left it.

  \<^verbatim>\<open>block.file = await this.getTelegramFile(block.file_id)\<close>:
\<close>

definition set_file :: "file_lookup \<Rightarrow> string \<Rightarrow> attachment \<Rightarrow> exn option \<times> attachment" where
  "set_file getFile token a =
     (case getTelegramFile getFile token (file_id a) of
        Inl e \<Rightarrow> (Some e, a)
      | Inr f \<Rightarrow> (None, a\<lparr>att_file := Some f\<rparr>))"

text \<open>
  Lines 281 to 284 (and 288 to 291, 310 to 313): \<^verbatim>\<open>thumb\<close> is the block's
  \<^verbatim>\<open>thumb\<close> or else its \<^verbatim>\<open>thumbnail\<close>, and the result is always written to
  \<^verbatim>\<open>block.thumb.file\<close>. With only a \<^verbatim>\<open>thumbnail\<close> the right-hand side is
  awaited first and the assignment to a key of \<^verbatim>\<open>undefined\<close> raises.
\<close>

definition set_thumb_file :: "file_lookup \<Rightarrow> string \<Rightarrow> attachment \<Rightarrow> exn option \<times> attachment" where
  "set_thumb_file getFile token a =
     (case thumb a of
        Some t \<Rightarrow>
          (case getTelegramFile getFile token (thumb_file_id t) of
             Inl e \<Rightarrow> (Some e, a)
           | Inr f \<Rightarrow> (None, a\<lparr>thumb := Some (t\<lparr>thumb_file := Some f\<rparr>)\<rparr>))
      | None \<Rightarrow>
          (case thumbnail a of
             Some t \<Rightarrow>
               (case getTelegramFile getFile token (thumb_file_id t) of
                  Inl e \<Rightarrow> (Some e, a)
                | Inr f \<Rightarrow> (Some TypeError, a))
           | None \<Rightarrow> (None, a)))"

definition set_file_and_thumb :: "file_lookup \<Rightarrow> string \<Rightarrow> attachment \<Rightarrow> exn option \<times> attachment" where
  "set_file_and_thumb getFile token a =
     (case set_file getFile token a of
        (Some e, a') \<Rightarrow> (Some e, a')
      | (None, a') \<Rightarrow> set_thumb_file getFile token a')"

text \<open>Lines 276 to 278.\<close>

definition ext_voice :: "file_lookup \<Rightarrow> string \<Rightarrow> msg \<Rightarrow> exn option \<times> msg" where
  "ext_voice getFile token m =
     (case voice m of
        None \<Rightarrow> (None, m)
      | Some a \<Rightarrow>
          if truthy_str (file_id a)
          then (case set_file getFile token a of (r, a') \<Rightarrow> (r, m\<lparr>voice := Some a'\<rparr>))
          else (None, m))"

text \<open>Lines 279 to 285.\<close>

definition ext_document :: "file_lookup \<Rightarrow> string \<Rightarrow> msg \<Rightarrow> exn option \<times> msg" where
  "ext_document getFile token m =
     (case document m of
        None \<Rightarrow> (None, m)
      | Some a \<Rightarrow>
          if truthy_str (file_id a)
          then (case set_file_and_thumb getFile token a of (r, a') \<Rightarrow> (r, m\<lparr>document := Some a'\<rparr>))
          else (None, m))"

text \<open>Lines 286 to 292.\<close>

definition ext_video :: "file_lookup \<Rightarrow> string \<Rightarrow> msg \<Rightarrow> exn option \<times> msg" where
  "ext_video getFile token m =
     (case video m of
        None \<Rightarrow> (None, m)
      | Some a \<Rightarrow>
          if truthy_str (file_id a)
          then (case set_file_and_thumb getFile token a of (r, a') \<Rightarrow> (r, m\<lparr>video := Some a'\<rparr>))
          else (None, m))"

text \<open>Lines 293 to 295.\<close>

definition ext_audio :: "file_lookup \<Rightarrow> string \<Rightarrow> msg \<Rightarrow> exn option \<times> msg" where
  "ext_audio getFile token m =
     (case audio m of
        None \<Rightarrow> (None, m)
      | Some a \<Rightarrow>
          if truthy_str (file_id a)
          then (case set_file getFile token a of (r, a') \<Rightarrow> (r, m\<lparr>audio := Some a'\<rparr>))
          else (None, m))"

text \<open>
  Lines 298 to 305, the function mapped over the photo array: a variant with a
  positive \<^verbatim>\<open>file_size\<close> and a truthy \<^verbatim>\<open>file_id\<close> is copied with the key
  \<^verbatim>\<open>file\<close>; any other variant is returned as it is.
\<close>

definition resolvable :: "photo_size \<Rightarrow> bool" where
  "resolvable p =
     ((case photo_file_size p of None \<Rightarrow> False | Some n \<Rightarrow> n > 0) \<and> truthy_str (photo_file_id p))"

definition ext_photo_size :: "file_lookup \<Rightarrow> string \<Rightarrow> photo_size \<Rightarrow> exn + photo_size" where
  "ext_photo_size getFile token p =
     (if resolvable p then
        (case getTelegramFile getFile token (photo_file_id p) of
           Inl e \<Rightarrow> Inl e
         | Inr f \<Rightarrow> Inr (p\<lparr>photo_file := Some f\<rparr>))
      else Inr p)"

text \<open>
  \<^verbatim>\<open>Promise.all\<close>: the results in the order of the promises, or a rejection
  when one of them is rejected. Which rejection wins depends on the order in
  which the promises settle; the model takes the first in the array.
\<close>

fun Promise_all :: "(exn + 'a) list \<Rightarrow> exn + 'a list" where
  "Promise_all [] = Inr []"
| "Promise_all (Inl e # ps) = Inl e"
| "Promise_all (Inr x # ps) = (case Promise_all ps of Inl e \<Rightarrow> Inl e | Inr xs \<Rightarrow> Inr (x # xs))"

text \<open>Lines 296 to 307.\<close>

definition ext_photo :: "file_lookup \<Rightarrow> string \<Rightarrow> msg \<Rightarrow> exn option \<times> msg" where
  "ext_photo getFile token m =
     (case photo m of
        None \<Rightarrow> (None, m)
      | Some ps \<Rightarrow>
          (case Promise_all (map (ext_photo_size getFile token) ps) of
             Inl e \<Rightarrow> (Some e, m)
           | Inr ps' \<Rightarrow> (None, m\<lparr>photo := Some ps'\<rparr>)))"

text \<open>Lines 308 to 314: the block is resolved whether it has a \<^verbatim>\<open>file_id\<close> or not.\<close>

definition ext_video_note :: "file_lookup \<Rightarrow> string \<Rightarrow> msg \<Rightarrow> exn option \<times> msg" where
  "ext_video_note getFile token m =
     (case video_note m of
        None \<Rightarrow> (None, m)
      | Some a \<Rightarrow>
          (case set_file_and_thumb getFile token a of (r, a') \<Rightarrow> (r, m\<lparr>video_note := Some a'\<rparr>)))"

text \<open>One step after the other, until one of them stops with an error.\<close>

definition and_then ::
  "(msg \<Rightarrow> exn option \<times> msg) \<Rightarrow> (msg \<Rightarrow> exn option \<times> msg) \<Rightarrow> msg \<Rightarrow> exn option \<times> msg" where
  "and_then f g m = (case f m of (Some e, m') \<Rightarrow> (Some e, m') | (None, m') \<Rightarrow> g m')"

text \<open>
  Lines 275 to 316. The first component is the rejection of the returned
  promise (\<open>None\<close> when it is fulfilled, with the message); the second is the
  message object as the call left it.
\<close>

definition extendMessage :: "file_lookup \<Rightarrow> string \<Rightarrow> msg \<Rightarrow> exn option \<times> msg" where
  "extendMessage getFile token =
     and_then (ext_voice getFile token)
    (and_then (ext_document getFile token)
    (and_then (ext_video getFile token)
    (and_then (ext_audio getFile token)
    (and_then (ext_photo getFile token)
              (ext_video_note getFile token)))))"

section \<open>The listeners of the constructor\<close>

text \<open>
  A handler is code of the caller: invoked with \<^verbatim>\<open>(this.bot, payload)\<close> and
  awaited, it completes (\<open>None\<close>) or raises, synchronously or by a rejected
  promise (\<open>Some e\<close>). A registry is the object \<^verbatim>\<open>privateEvents\<close> or
  \<^verbatim>\<open>publicEvents\<close>: its own keys in their order, and the lookup of a key
  among them (the keys an object inherits from its prototype are left out).
\<close>

datatype payload =
    PMessage msg
  | PForwards "msg list"
  | PCallback string "msg option"
  | PInline inline_query

type_synonym handler = "payload \<Rightarrow> exn option"
type_synonym registry = "(string \<times> handler) list"

record config =
  token :: string
  privateEvents :: registry
  publicEvents :: registry
  getFile :: file_lookup
  mkRegExp :: regexp_ctor

datatype scope = Private | Public

text \<open>
  What a listener does that can be seen from outside: a handler invoked,
  \<^verbatim>\<open>this.bot.emit("error", error)\<close> (the error channel, which calls
  \<^verbatim>\<open>onError\<close>), \<^verbatim>\<open>console.warn\<close>, and \<open>Unhandled e\<close>: the promise of the
  \<^verbatim>\<open>async\<close> listener is rejected with \<open>e\<close>, which nothing in the program
  catches.
\<close>

datatype effect =
    Invoke scope string payload
  | EmitError exn
  | Warn string
  | Unhandled exn

text \<open>\<^verbatim>\<open>try { await handler(this.bot, payload) } catch (error) { this.bot.emit("error", error) }\<close>\<close>

definition invoke_guarded :: "scope \<Rightarrow> string \<Rightarrow> handler \<Rightarrow> payload \<Rightarrow> effect list" where
  "invoke_guarded sc name h p =
     Invoke sc name p # (case h p of Some e \<Rightarrow> [EmitError e] | None \<Rightarrow> [])"

text \<open>
  \<^verbatim>\<open>await handler(this.bot, payload)\<close> outside any \<^verbatim>\<open>try\<close>: the error, if
  any, leaves the listener. The result says whether the listener goes on.
\<close>

definition invoke_bare :: "scope \<Rightarrow> string \<Rightarrow> handler \<Rightarrow> payload \<Rightarrow> effect list \<times> bool" where
  "invoke_bare sc name h p =
     (case h p of
        Some e \<Rightarrow> ([Invoke sc name p, Unhandled e], False)
      | None \<Rightarrow> ([Invoke sc name p], True))"

text \<open>Lines 208 to 231, the path of an ordinary message.\<close>

definition dispatch_message :: "config \<Rightarrow> msg \<Rightarrow> metadata \<Rightarrow> effect list" where
  "dispatch_message cfg message0 md =
     (case extendMessage (getFile cfg) (token cfg) message0 of
        (Some e, _) \<Rightarrow> [Unhandled e]
      | (None, message) \<Rightarrow>
          (case msg_chat message of
             None \<Rightarrow> [Unhandled TypeError]
           | Some c \<Rightarrow>
               if chat_type c = ''private'' then
                 (case getEventName (mkRegExp cfg) message md (map fst (privateEvents cfg)) of
                    Inl e \<Rightarrow> [Unhandled e]
                  | Inr eventName \<Rightarrow>
                      (case map_of (privateEvents cfg) eventName of
                         Some h \<Rightarrow> invoke_guarded Private eventName h (PMessage message)
                       | None \<Rightarrow> [Warn (''Unknown private event: '' @ eventName)]))
               else
                 (case getEventName (mkRegExp cfg) message md (map fst (publicEvents cfg)) of
                    Inl e \<Rightarrow> [Unhandled e]
                  | Inr eventName \<Rightarrow>
                      (case map_of (publicEvents cfg) eventName of
                         Some h \<Rightarrow> invoke_guarded Public eventName h (PMessage message)
                       | None \<Rightarrow> [Warn (''Unknown public event: '' @ eventName)]))))"

text \<open>Lines 233 to 237.\<close>

definition on_channel_post :: "config \<Rightarrow> msg \<Rightarrow> effect list" where
  "on_channel_post cfg message =
     (case map_of (publicEvents cfg) ''channel_post'' of
        Some h \<Rightarrow> fst (invoke_bare Public ''channel_post'' h (PMessage message))
      | None \<Rightarrow> [])"

text \<open>
  Lines 238 to 251. The key looked up is \<^verbatim>\<open>query.data\<close> coerced to a property
  key; the payload is \<^verbatim>\<open>{id: query.id, ...query.message}\<close>.
\<close>

definition on_callback_query :: "config \<Rightarrow> callback_query \<Rightarrow> effect list" where
  "on_callback_query cfg query =
     (let name = String_of_str (cq_data query);
          p = PCallback (cq_id query) (cq_message query);
          (effs, continue) =
            (case map_of (publicEvents cfg) name of
               Some h \<Rightarrow> invoke_bare Public name h p
             | None \<Rightarrow> ([], True))
      in if continue then
           (case map_of (privateEvents cfg) name of
              Some h \<Rightarrow> effs @ fst (invoke_bare Private name h p)
            | None \<Rightarrow> effs)
         else effs)"

text \<open>Lines 252 to 262.\<close>

definition on_inline_query :: "config \<Rightarrow> inline_query \<Rightarrow> effect list" where
  "on_inline_query cfg message =
     (if iq_chat_type message = Some ''private'' \<or> iq_chat_type message = Some ''sender'' then
        (case map_of (privateEvents cfg) ''inline_query'' of
           Some h \<Rightarrow> fst (invoke_bare Private ''inline_query'' h (PInline message))
         | None \<Rightarrow> [])
      else if iq_chat_type message = Some ''group'' \<or> iq_chat_type message = Some ''supergroup'' then
        (case map_of (publicEvents cfg) ''inline_query'' of
           Some h \<Rightarrow> fst (invoke_bare Public ''inline_query'' h (PInline message))
         | None \<Rightarrow> [])
      else [])"

section \<open>The forward aggregator on the event loop\<close>

text \<open>
  The program runs on one thread: a listener or a timer callback runs until
  it returns or reaches an \<^verbatim>\<open>await\<close>, and then another one may run. The state
  is what the listeners share: the map \<^verbatim>\<open>transactionMessages\<close>, the timers
  that \<^verbatim>\<open>setTimeout\<close> has armed, the flushes suspended at an \<^verbatim>\<open>await\<close>, the
  clock in milliseconds, and the effects so far.
\<close>

text \<open>
  An entry of the map holds the message objects themselves, and
  \<^verbatim>\<open>extendMessage\<close> writes into them. The model keeps a message as a value:
  an entry lists its messages as they arrived, and a flush hands the handler
  the values that \<^verbatim>\<open>extendMessage\<close> returns. The file lookup being a function,
  enriching a message again gives the same value.
\<close>

record transaction =
  messages :: "msg list"
  timeoutId :: nat

record timer =
  timer_id :: nat
  timer_key :: int
  timer_due :: nat

text \<open>
  A timer callback that has passed line 187 waits for \<^verbatim>\<open>Promise.all\<close>
  (\<open>Resolving\<close>) over the messages the entry held when it started; after line
  191 it waits for the handler, whose outcome it will see (\<open>Handling\<close>).
\<close>

datatype phase = Resolving | Handling "exn option"

record flush =
  flush_id :: nat
  flush_key :: int
  flush_messages :: "msg list"
  flush_phase :: phase

record state =
  transactionMessages :: "int \<rightharpoonup> transaction"
  timers :: "timer list"
  next_timer :: nat
  flushes :: "flush list"
  next_flush :: nat
  now :: nat
  effects :: "effect list"

definition initial :: state where
  "initial =
     \<lparr> transactionMessages = Map.empty, timers = [], next_timer = 0,
       flushes = [], next_flush = 0, now = 0, effects = [] \<rparr>"

definition emit :: "effect list \<Rightarrow> state \<Rightarrow> state" where
  "emit effs st = st\<lparr>effects := effects st @ effs\<rparr>"

definition clearTimeout :: "nat \<Rightarrow> timer list \<Rightarrow> timer list" where
  "clearTimeout tid ts = filter (\<lambda>t. timer_id t \<noteq> tid) ts"

text \<open>
  Lines 170 to 204: the entry of the chat, if there is one, gives the array
  the message is pushed to and the timer that is cleared; a new timer is armed
  \<open>FORWARD_TIME\<close> from now and the entry is set.
\<close>

definition aggregate :: "int \<Rightarrow> msg \<Rightarrow> state \<Rightarrow> state" where
  "aggregate key message st =
     (let (msgs, ts) =
            (case transactionMessages st key of
               Some transaction \<Rightarrow>
                 (messages transaction, clearTimeout (timeoutId transaction) (timers st))
             | None \<Rightarrow> ([], timers st));
          tid = next_timer st
      in st\<lparr> transactionMessages :=
               (transactionMessages st)(key \<mapsto> \<lparr> messages = msgs @ [message], timeoutId = tid \<rparr>),
             timers := ts @ [\<lparr> timer_id = tid, timer_key = key, timer_due = now st + FORWARD_TIME \<rparr>],
             next_timer := tid + 1 \<rparr>)"

definition present :: "'a option \<Rightarrow> bool" where
  "present x = (case x of None \<Rightarrow> False | Some _ \<Rightarrow> True)"

text \<open>
  Lines 167 to 232, the listener of \<^verbatim>\<open>message\<close>. Reading \<^verbatim>\<open>message.chat.id\<close>
  or \<^verbatim>\<open>message.from.id\<close> of a forwarded message without that object raises.
  The path of an ordinary message touches none of the shared state; it is
  taken in one step.
\<close>

definition on_message :: "config \<Rightarrow> msg \<Rightarrow> metadata \<Rightarrow> state \<Rightarrow> state" where
  "on_message cfg message md st =
     (if present (forward_from message) \<or> present (forward_from_chat message) then
        (case msg_chat message of
           None \<Rightarrow> emit [Unhandled TypeError] st
         | Some c \<Rightarrow>
             (case msg_from message of
                None \<Rightarrow> emit [Unhandled TypeError] st
              | Some u \<Rightarrow>
                  if chat_id c = user_id u then aggregate (chat_id c) message st
                  else emit (dispatch_message cfg message md) st))
      else emit (dispatch_message cfg message md) st)"

text \<open>
  Lines 181 to 187, the timer callback up to its first \<^verbatim>\<open>await\<close>: with an
  entry for the key, the entry's timer is cleared and its messages are handed
  to \<^verbatim>\<open>extendMessage\<close>; the entry stays in the map.
\<close>

definition on_timeout :: "int \<Rightarrow> state \<Rightarrow> state" where
  "on_timeout key st =
     (case transactionMessages st key of
        None \<Rightarrow> st
      | Some transaction \<Rightarrow>
          st\<lparr> timers := clearTimeout (timeoutId transaction) (timers st),
              flushes := flushes st @
                [\<lparr> flush_id = next_flush st, flush_key = key,
                   flush_messages = messages transaction, flush_phase = Resolving \<rparr>],
              next_flush := next_flush st + 1 \<rparr>)"

text \<open>Line 196, in the \<^verbatim>\<open>finally\<close> block: the end of a flush.\<close>

definition finish :: "flush \<Rightarrow> state \<Rightarrow> state" where
  "finish f st =
     st\<lparr> transactionMessages := (transactionMessages st)(flush_key f := None),
         flushes := filter (\<lambda>g. flush_id g \<noteq> flush_id f) (flushes st) \<rparr>"

definition resolved :: "config \<Rightarrow> msg \<Rightarrow> exn + msg" where
  "resolved cfg m =
     (case extendMessage (getFile cfg) (token cfg) m of
        (Some e, _) \<Rightarrow> Inl e
      | (None, m') \<Rightarrow> Inr m')"

text \<open>
  Lines 187 to 197, when \<^verbatim>\<open>Promise.all\<close> settles: a rejection goes to the
  error channel and the flush ends; otherwise the handler of
  \<^verbatim>\<open>message_forwards\<close>, if registered, is invoked and awaited.
\<close>

definition on_enriched :: "config \<Rightarrow> flush \<Rightarrow> state \<Rightarrow> state" where
  "on_enriched cfg f st =
     (case Promise_all (map (resolved cfg) (flush_messages f)) of
        Inl e \<Rightarrow> finish f (emit [EmitError e] st)
      | Inr extMessages \<Rightarrow>
          (case map_of (privateEvents cfg) ''message_forwards'' of
             None \<Rightarrow> finish f st
           | Some h \<Rightarrow>
               (emit [Invoke Private ''message_forwards'' (PForwards extMessages)] st)
                 \<lparr> flushes :=
                     map (\<lambda>g. if flush_id g = flush_id f
                              then g\<lparr>flush_phase := Handling (h (PForwards extMessages))\<rparr>
                              else g)
                       (flushes st) \<rparr>))"

text \<open>Lines 191 to 197, when the awaited handler settles.\<close>

definition on_returned :: "flush \<Rightarrow> exn option \<Rightarrow> state \<Rightarrow> state" where
  "on_returned f r st =
     finish f (emit (case r of Some e \<Rightarrow> [EmitError e] | None \<Rightarrow> []) st)"

text \<open>
  What the event loop does next. A timer runs its callback no earlier than it
  is due and only while it is armed; a step that cannot happen in the state is
  \<open>None\<close>.
\<close>

datatype event =
    Message msg metadata
  | ChannelPost msg
  | CallbackQuery callback_query
  | InlineQuery inline_query
  | Elapse nat
  | Timeout nat
  | Enriched nat
  | Returned nat

fun step :: "config \<Rightarrow> event \<Rightarrow> state \<Rightarrow> state option" where
  "step cfg (Message message md) st = Some (on_message cfg message md st)"
| "step cfg (ChannelPost message) st = Some (emit (on_channel_post cfg message) st)"
| "step cfg (CallbackQuery query) st = Some (emit (on_callback_query cfg query) st)"
| "step cfg (InlineQuery message) st = Some (emit (on_inline_query cfg message) st)"
| "step cfg (Elapse d) st = Some (st\<lparr>now := now st + d\<rparr>)"
| "step cfg (Timeout tid) st =
     (case find (\<lambda>t. timer_id t = tid) (timers st) of
        None \<Rightarrow> None
      | Some t \<Rightarrow>
          if timer_due t \<le> now st
          then Some (on_timeout (timer_key t) (st\<lparr>timers := clearTimeout tid (timers st)\<rparr>))
          else None)"
| "step cfg (Enriched fid) st =
     (case find (\<lambda>f. flush_id f = fid) (flushes st) of
        None \<Rightarrow> None
      | Some f \<Rightarrow>
          (case flush_phase f of
             Resolving \<Rightarrow> Some (on_enriched cfg f st)
           | Handling r \<Rightarrow> None))"
| "step cfg (Returned fid) st =
     (case find (\<lambda>f. flush_id f = fid) (flushes st) of
        None \<Rightarrow> None
      | Some f \<Rightarrow>
          (case flush_phase f of
             Resolving \<Rightarrow> None
           | Handling r \<Rightarrow> Some (on_returned f r st)))"

fun run :: "config \<Rightarrow> event list \<Rightarrow> state \<Rightarrow> state option" where
  "run cfg [] st = Some st"
| "run cfg (ev # evs) st = (case step cfg ev st of None \<Rightarrow> None | Some st' \<Rightarrow> run cfg evs st')"

section \<open>Notions used in the statements\<close>

subsection \<open>The variants of a body\<close>

text \<open>
  The keys of a body that \<^verbatim>\<open>getMessageFromBody\<close> tests, in the order of
  the body, and whether a \<^verbatim>\<open>callback_query\<close> carries a message.
\<close>

definition variants :: "body \<Rightarrow> string list" where
  "variants b =
     (if present (b_message b) then [''message''] else []) @
     (if present (b_edited_message b) then [''edited_message''] else []) @
     (if present (b_channel_post b) then [''channel_post''] else []) @
     (if present (b_callback_query b) then [''callback_query''] else [])"

definition embeds_message :: "body \<Rightarrow> bool" where
  "embeds_message b =
     (case b_callback_query b of None \<Rightarrow> False | Some q \<Rightarrow> present (cq_message q))"

subsection \<open>A message without its resolved files\<close>

text \<open>
  \<open>erase_files\<close> removes the key \<^verbatim>\<open>file\<close> from every attachment block, from
  the \<^verbatim>\<open>thumb\<close> of a block and from every photo variant, and leaves
  everything else: two messages with the same image differ in those keys
  only. \<open>kept p p'\<close>: the variant \<open>p'\<close> is \<open>p\<close>, but for the key \<^verbatim>\<open>file\<close> when
  \<open>p\<close> has a positive size and a file identifier.
\<close>

definition erase_thumb :: "thumb \<Rightarrow> thumb" where
  "erase_thumb t = t\<lparr>thumb_file := None\<rparr>"

definition erase_att :: "attachment \<Rightarrow> attachment" where
  "erase_att a = a\<lparr>att_file := None, thumb := map_option erase_thumb (thumb a)\<rparr>"

definition erase_photo :: "photo_size \<Rightarrow> photo_size" where
  "erase_photo p = p\<lparr>photo_file := None\<rparr>"

definition erase_files :: "msg \<Rightarrow> msg" where
  "erase_files m =
     m\<lparr> voice := map_option erase_att (voice m),
        document := map_option erase_att (document m),
        video := map_option erase_att (video m),
        audio := map_option erase_att (audio m),
        photo := map_option (map erase_photo) (photo m),
        video_note := map_option erase_att (video_note m) \<rparr>"

definition kept :: "photo_size \<Rightarrow> photo_size \<Rightarrow> bool" where
  "kept p p' = (p'\<lparr>photo_file := photo_file p\<rparr> = p \<and> (resolvable p \<or> p' = p))"

definition no_attachments :: "msg \<Rightarrow> bool" where
  "no_attachments m =
     (voice m = None \<and> document m = None \<and> video m = None \<and> audio m = None \<and>
      photo m = None \<and> video_note m = None)"

subsection \<open>The resolved files of a message\<close>

text \<open>
  The values under the keys \<^verbatim>\<open>file\<close> of a message, each with the file
  identifier beside it (of the block, of its \<^verbatim>\<open>thumb\<close>, of the photo variant),
  and the pairs that \<^verbatim>\<open>getTelegramFile\<close> produces.
\<close>

definition att_files :: "attachment \<Rightarrow> (string option \<times> tfile) list" where
  "att_files a =
     (case att_file a of None \<Rightarrow> [] | Some f \<Rightarrow> [(file_id a, f)]) @
     (case thumb a of
        None \<Rightarrow> []
      | Some th \<Rightarrow> (case thumb_file th of None \<Rightarrow> [] | Some f \<Rightarrow> [(thumb_file_id th, f)]))"

definition block_files :: "attachment option \<Rightarrow> (string option \<times> tfile) list" where
  "block_files x = (case x of None \<Rightarrow> [] | Some a \<Rightarrow> att_files a)"

definition photo_size_files :: "photo_size \<Rightarrow> (string option \<times> tfile) list" where
  "photo_size_files p = (case photo_file p of None \<Rightarrow> [] | Some f \<Rightarrow> [(photo_file_id p, f)])"

definition photo_files :: "photo_size list option \<Rightarrow> (string option \<times> tfile) list" where
  "photo_files x = (case x of None \<Rightarrow> [] | Some ps \<Rightarrow> concat (map photo_size_files ps))"

definition resolved_files :: "msg \<Rightarrow> (string option \<times> tfile) list" where
  "resolved_files m =
     block_files (voice m) @ block_files (document m) @ block_files (video m) @
     block_files (audio m) @ photo_files (photo m) @ block_files (video_note m)"

definition written :: "file_lookup \<Rightarrow> string \<Rightarrow> (string option \<times> tfile) set" where
  "written g t = {(fileId, f). getTelegramFile g t fileId = Inr f}"

subsection \<open>Steps on one key of the message\<close>

text \<open>
  Each step of \<^verbatim>\<open>extendMessage\<close> reads and writes one key of the message.
  \<open>opt_step\<close>, \<open>guarded\<close> and \<open>photo_step\<close> are the steps on the value of that
  key; \<open>idem\<close>, \<open>commutes\<close> and \<open>frame\<close> are the properties of steps that the
  proofs compose along \<open>and_then\<close>.
\<close>

definition opt_step :: "('a \<Rightarrow> exn option \<times> 'a) \<Rightarrow> 'a option \<Rightarrow> exn option \<times> 'a option" where
  "opt_step b x =
     (case x of None \<Rightarrow> (None, None) | Some a \<Rightarrow> (case b a of (r, a') \<Rightarrow> (r, Some a')))"

definition guarded ::
  "(attachment \<Rightarrow> exn option \<times> attachment) \<Rightarrow> attachment \<Rightarrow> exn option \<times> attachment" where
  "guarded b a = (if truthy_str (file_id a) then b a else (None, a))"

definition photo_step ::
  "file_lookup \<Rightarrow> string \<Rightarrow> photo_size list option \<Rightarrow> exn option \<times> photo_size list option" where
  "photo_step g t x =
     (case x of
        None \<Rightarrow> (None, None)
      | Some ps \<Rightarrow>
          (case Promise_all (map (ext_photo_size g t) ps) of
             Inl e \<Rightarrow> (Some e, Some ps)
           | Inr ps' \<Rightarrow> (None, Some ps')))"

definition idem :: "(msg \<Rightarrow> exn option \<times> msg) \<Rightarrow> bool" where
  "idem f = (\<forall>m. f (snd (f m)) = f m)"

definition commutes ::
  "(msg \<Rightarrow> exn option \<times> msg) \<Rightarrow> (msg \<Rightarrow> exn option \<times> msg) \<Rightarrow> bool" where
  "commutes f g =
     (\<forall>m. fst (f (snd (g m))) = fst (f m) \<and> fst (g (snd (f m))) = fst (g m) \<and>
          snd (f (snd (g m))) = snd (g (snd (f m))))"

definition frame :: "(msg \<Rightarrow> exn option \<times> msg) \<Rightarrow> bool" where
  "frame f =
     (\<forall>m. erase_files (snd (f m)) = erase_files m \<and>
          rel_option (list_all2 kept) (photo m) (photo (snd (f m))))"

section \<open>Sample values\<close>

text \<open>
  A constructor of regular expressions to run the classifier on: the flags
  are checked as the language checks them (letters of \<^verbatim>\<open>dgimsuvy\<close>, none
  twice, not both \<^verbatim>\<open>u\<close> and \<^verbatim>\<open>v\<close>), and the source is searched for as it
  is written. It agrees with the language on a source of letters and digits
  with flags that hold neither \<^verbatim>\<open>i\<close> nor \<^verbatim>\<open>y\<close>, and is used on nothing else.
\<close>

definition valid_flags :: "string \<Rightarrow> bool" where
  "valid_flags fl =
     (list_all (\<lambda>c. c \<in> set ''dgimsuvy'') fl \<and> distinct fl \<and>
      \<not> (CHR ''u'' \<in> set fl \<and> CHR ''v'' \<in> set fl))"

fun starts_with :: "string \<Rightarrow> string \<Rightarrow> bool" where
  "starts_with [] t = True"
| "starts_with (c # cs) [] = False"
| "starts_with (c # cs) (d # ds) = (c = d \<and> starts_with cs ds)"

fun occurs_in :: "string \<Rightarrow> string \<Rightarrow> bool" where
  "occurs_in s [] = (s = [])"
| "occurs_in s (d # ds) = (starts_with s (d # ds) \<or> occurs_in s ds)"

definition literal_RegExp :: regexp_ctor where
  "literal_RegExp source flags =
     (if valid_flags flags then Inr (\<lambda>t. occurs_in source t) else Inl SyntaxError)"

definition blank :: msg where
  "blank =
     \<lparr> msg_chat = None, msg_from = None, forward_from = None, forward_from_chat = None,
       contact = None, msg_text = None, msg_type = None, reply_to_message = False,
       entities = None, voice = None, document = None, video = None, audio = None,
       photo = None, video_note = None, msg_other = [] \<rparr>"

definition no_body :: body where
  "no_body =
     \<lparr> b_message = None, b_edited_message = None, b_channel_post = None,
       b_callback_query = None, b_inline_query = None \<rparr>"

definition text_md :: metadata where
  "text_md = \<lparr> md_type = ''text'' \<rparr>"

definition private_text :: msg where
  "private_text =
     blank\<lparr> msg_chat := Some \<lparr>chat_id = 5, chat_type = ''private''\<rparr>,
            msg_from := Some \<lparr>user_id = 5, is_bot = False\<rparr>,
            msg_text := Some ''news'' \<rparr>"

definition channel_message :: msg where
  "channel_message =
     blank\<lparr> msg_chat := Some \<lparr>chat_id = - 100, chat_type = ''channel''\<rparr>,
            msg_text := Some ''news'' \<rparr>"


text \<open>A shared contact in a message that has no sender.\<close>

definition contact_without_sender :: msg where
  "contact_without_sender =
     blank\<lparr> msg_chat := Some \<lparr>chat_id = - 100, chat_type = ''channel''\<rparr>,
            contact := Some \<lparr>contact_user_id = Some 5\<rparr> \<rparr>"

text \<open>
  Two messages a user forwards to their own chat, and a message forwarded
  into a group by one of its members.
\<close>

definition forward1 :: msg where
  "forward1 =
     private_text\<lparr> forward_from := Some \<lparr>user_id = 9, is_bot = False\<rparr>, msg_text := Some ''one'' \<rparr>"

definition forward2 :: msg where
  "forward2 =
     private_text\<lparr> forward_from := Some \<lparr>user_id = 9, is_bot = False\<rparr>, msg_text := Some ''two'' \<rparr>"

definition group_forward :: msg where
  "group_forward =
     blank\<lparr> msg_chat := Some \<lparr>chat_id = - 100, chat_type = ''group''\<rparr>,
            msg_from := Some \<lparr>user_id = 5, is_bot = False\<rparr>,
            forward_from := Some \<lparr>user_id = 9, is_bot = False\<rparr>,
            msg_text := Some ''one'' \<rparr>"

definition buy_query :: callback_query where
  "buy_query = \<lparr> cq_id = ''q1'', cq_data = Some ''buy'', cq_message = Some private_text \<rparr>"

definition sender_query :: inline_query where
  "sender_query = \<lparr> iq_id = ''i1'', iq_chat_type = Some ''sender'' \<rparr>"

text \<open>Handlers, a file lookup and configurations.\<close>

definition failing :: handler where
  "failing p = Some (Error ''handler failed'')"

definition succeeding :: handler where
  "succeeding p = None"

definition sample_files :: file_lookup where
  "sample_files fileId =
     (if fileId = Some ''v1'' then Inr (Some ''voice/file_1.oga'')
      else if fileId = Some ''p2'' then Inr (Some ''photos/file_2.jpg'')
      else Inl (Error ''file not found''))"

definition sample_config :: "registry \<Rightarrow> registry \<Rightarrow> config" where
  "sample_config priv pub =
     \<lparr> token = ''T0KEN'', privateEvents = priv, publicEvents = pub,
       getFile = sample_files, mkRegExp = literal_RegExp \<rparr>"

definition forwards_config :: config where
  "forwards_config = sample_config [(''message_forwards'', succeeding)] []"

text \<open>
  A configuration with a handler of \<^verbatim>\<open>text\<close> in both registries, and a post
  of a channel that was forwarded from another channel: it has a forward
  marker and a chat, and no sender.
\<close>

definition text_config :: config where
  "text_config = sample_config [(''text'', succeeding)] [(''text'', succeeding)]"

definition forwarded_post :: msg where
  "forwarded_post =
     channel_message\<lparr> forward_from_chat := Some \<lparr>chat_id = - 200, chat_type = ''channel''\<rparr>,
                      msg_type := Some ''channel_post'' \<rparr>"

text \<open>A voice message with two photo variants, the first without a size.\<close>

definition voice_photo :: msg where
  "voice_photo =
     private_text
       \<lparr> voice := Some \<lparr> file_id = Some ''v1'', thumb = None, thumbnail = None,
                         att_file = None, att_other = [(''duration'', ''3'')] \<rparr>,
         photo := Some
           [ \<lparr> photo_file_id = Some ''p1'', photo_file_size = None, photo_file = None,
               photo_other = [(''width'', ''90'')] \<rparr>,
             \<lparr> photo_file_id = Some ''p2'', photo_file_size = Some 2048, photo_file = None,
               photo_other = [(''width'', ''320'')] \<rparr> ] \<rparr>"

text \<open>What enrichment makes of it with the sample file lookup.\<close>

definition voice_photo_enriched :: msg where
  "voice_photo_enriched =
     private_text
       \<lparr> voice := Some \<lparr> file_id = Some ''v1'', thumb = None, thumbnail = None,
                         att_file = Some \<lparr> file_path = Some ''voice/file_1.oga'',
                           url = ''https://api.telegram.org/file/botT0KEN/voice/file_1.oga'' \<rparr>,
                         att_other = [(''duration'', ''3'')] \<rparr>,
         photo := Some
           [ \<lparr> photo_file_id = Some ''p1'', photo_file_size = None, photo_file = None,
               photo_other = [(''width'', ''90'')] \<rparr>,
             \<lparr> photo_file_id = Some ''p2'', photo_file_size = Some 2048,
               photo_file = Some \<lparr> file_path = Some ''photos/file_2.jpg'',
                 url = ''https://api.telegram.org/file/botT0KEN/photos/file_2.jpg'' \<rparr>,
               photo_other = [(''width'', ''320'')] \<rparr> ] \<rparr>"

text \<open>The same message forwarded by the user to their own chat, before and after.\<close>

definition forward_voice :: msg where
  "forward_voice = voice_photo\<lparr> forward_from := Some \<lparr>user_id = 9, is_bot = False\<rparr> \<rparr>"

definition forward_voice_enriched :: msg where
  "forward_voice_enriched =
     voice_photo_enriched\<lparr> forward_from := Some \<lparr>user_id = 9, is_bot = False\<rparr> \<rparr>"

section \<open>The normalizer\<close>

text \<open>
  Claim C5, as the program has it. \<^verbatim>\<open>getMessageFromBody\<close> tests four keys:
  \<^verbatim>\<open>message\<close>, \<^verbatim>\<open>edited_message\<close>, \<^verbatim>\<open>channel_post\<close> and \<^verbatim>\<open>callback_query\<close>.
  A body with none of them raises the error \<^verbatim>\<open>Unknown Telegram Body\<close>,
  whatever else it holds; a body with exactly one of them is normalized with
  that key as its kind, for \<^verbatim>\<open>callback_query\<close> when the query carries a
  message.
\<close>

theorem getMessageFromBody_variants:
  "(variants b = [] \<longrightarrow> getMessageFromBody b = Inl (Error ''Unknown Telegram Body'')) \<and>
   (variants b = [k] \<and> (k = ''callback_query'' \<longrightarrow> embeds_message b) \<longrightarrow>
      (\<exists>r. getMessageFromBody b = Inr r \<and> n_type r = k))"
  by (auto simp: variants_def getMessageFromBody_def present_def embeds_message_def pack_def
      split: option.splits if_splits)

theorem getMessageFromBody_variants_witness:
  "getMessageFromBody no_body = Inl (Error ''Unknown Telegram Body'') \<and>
   (\<exists>r. getMessageFromBody (no_body\<lparr>b_edited_message := Some private_text\<rparr>) = Inr r \<and>
        n_type r = ''edited_message'') \<and>
   (\<exists>r. getMessageFromBody (no_body\<lparr>b_callback_query := Some buy_query\<rparr>) = Inr r \<and>
        n_type r = ''callback_query'')"
  using getMessageFromBody_variants [of no_body]
    getMessageFromBody_variants [of "no_body\<lparr>b_edited_message := Some private_text\<rparr>" "''edited_message''"]
    getMessageFromBody_variants [of "no_body\<lparr>b_callback_query := Some buy_query\<rparr>" "''callback_query''"]
  by (simp add: variants_def no_body_def present_def embeds_message_def buy_query_def)

text \<open>
  Claim C5 as stated fails: a body whose only variant is \<^verbatim>\<open>inline_query\<close>
  holds exactly one of the five variants, and the normalizer raises the error
  of an unknown body.
\<close>

theorem inline_query_not_recognized:
  "present (b_inline_query (no_body\<lparr>b_inline_query := Some sender_query\<rparr>)) \<and>
   variants (no_body\<lparr>b_inline_query := Some sender_query\<rparr>) = [] \<and>
   getMessageFromBody (no_body\<lparr>b_inline_query := Some sender_query\<rparr>) =
     Inl (Error ''Unknown Telegram Body'')"
  by (simp add: getMessageFromBody_def no_body_def variants_def present_def)

text \<open>The identifiers of the normalized message are strings.\<close>

lemma pack_identifiers:
  "n_chatId (pack ''channel_post'' channel_message) = ''-100''"
  "n_userId (pack ''channel_post'' channel_message) = ''undefined''"
  by (simp_all add: pack_def channel_message_def blank_def String_of_id_def String_of_int_def
      digits_of.simps)

section \<open>The classifier\<close>








text \<open>
  Claim C6 fails on the program: for a shared contact in a message that has
  no sender, whatever the registered keys and the constructor of regular
  expressions, the classifier raises a TypeError at \<^verbatim>\<open>message.from.is_bot\<close>.
\<close>

theorem getEventName_contact_without_sender:
  "getEventName mk contact_without_sender \<lparr>md_type = ''contact''\<rparr> eventsList = Inl TypeError"
  by (simp add: getEventName_def contact_case_def contact_without_sender_def blank_def)

section \<open>The listeners\<close>

lemma extendMessage_plain: "no_attachments m \<Longrightarrow> extendMessage g t m = (None, m)"
  by (simp add: no_attachments_def extendMessage_def and_then_def ext_voice_def ext_document_def
      ext_video_def ext_audio_def ext_photo_def ext_video_note_def)

lemma private_text_keys:
  "msg_chat private_text = Some \<lparr>chat_id = 5, chat_type = ''private''\<rparr>"
  "msg_text private_text = Some ''news''" "msg_type private_text = None"
  "reply_to_message private_text = False" "entities private_text = None"
  "forward_from private_text = None" "forward_from_chat private_text = None"
  by (simp_all add: private_text_def blank_def)

lemma group_forward_keys:
  "msg_chat group_forward = Some \<lparr>chat_id = - 100, chat_type = ''group''\<rparr>"
  "msg_from group_forward = Some \<lparr>user_id = 5, is_bot = False\<rparr>"
  "msg_text group_forward = Some ''one''" "msg_type group_forward = None"
  "reply_to_message group_forward = False" "entities group_forward = None"
  by (simp_all add: group_forward_def blank_def)

lemma plain_samples:
  "no_attachments private_text" "no_attachments forward1" "no_attachments forward2"
  "no_attachments group_forward"
  by (simp_all add: no_attachments_def private_text_def forward1_def forward2_def
      group_forward_def blank_def)

text \<open>
  Claim C2 fails on the program: a handler that raises on the path of
  \<^verbatim>\<open>channel_post\<close>, of \<^verbatim>\<open>callback_query\<close> or of \<^verbatim>\<open>inline_query\<close> is awaited
  outside any \<^verbatim>\<open>try\<close>: nothing is emitted on the error channel and the
  listener's promise is rejected with the handler's error. The same handler
  on the path of an ordinary message has its error emitted on the error
  channel.
\<close>

theorem bare_listeners_leak_handler_errors:
  "on_channel_post (sample_config [] [(''channel_post'', failing)]) channel_message =
     [Invoke Public ''channel_post'' (PMessage channel_message),
      Unhandled (Error ''handler failed'')] \<and>
   on_callback_query (sample_config [(''buy'', failing)] []) buy_query =
     [Invoke Private ''buy'' (PCallback ''q1'' (Some private_text)),
      Unhandled (Error ''handler failed'')] \<and>
   on_inline_query (sample_config [(''inline_query'', failing)] []) sender_query =
     [Invoke Private ''inline_query'' (PInline sender_query),
      Unhandled (Error ''handler failed'')] \<and>
   dispatch_message (sample_config [(''text'', failing)] []) private_text text_md =
     [Invoke Private ''text'' (PMessage private_text), EmitError (Error ''handler failed'')]"
  by (simp add: on_channel_post_def on_callback_query_def on_inline_query_def dispatch_message_def
      sample_config_def invoke_bare_def invoke_guarded_def failing_def buy_query_def
      sender_query_def String_of_str_def extendMessage_plain plain_samples private_text_keys
      getEventName_def text_md_def structural_def startsWith_slash_def)

text \<open>
  Claim C7 fails on the program: with the data of a callback query registered
  in both registries and a public handler that raises, the listener ends at
  the rejected \<^verbatim>\<open>await\<close> of line 240 and the private handler is never
  invoked.
\<close>

theorem callback_query_private_skipped:
  "on_callback_query (sample_config [(''buy'', succeeding)] [(''buy'', failing)]) buy_query =
     [Invoke Public ''buy'' (PCallback ''q1'' (Some private_text)),
      Unhandled (Error ''handler failed'')]"
  by (simp add: on_callback_query_def sample_config_def invoke_bare_def failing_def buy_query_def
      String_of_str_def)

text \<open>
  With a public handler that does not raise, the listener of
  \<^verbatim>\<open>callback_query\<close> invokes the handlers of both registries, the public one
  first.
\<close>

lemma callback_query_both:
  assumes "map_of (publicEvents cfg) (String_of_str (cq_data query)) = Some h1"
    and "map_of (privateEvents cfg) (String_of_str (cq_data query)) = Some h2"
    and "h1 (PCallback (cq_id query) (cq_message query)) = None"
  shows "\<exists>rest. on_callback_query cfg query =
           [Invoke Public (String_of_str (cq_data query)) (PCallback (cq_id query) (cq_message query)),
            Invoke Private (String_of_str (cq_data query)) (PCallback (cq_id query) (cq_message query))]
           @ rest"
  using assms by (auto simp: on_callback_query_def invoke_bare_def Let_def split: option.splits)

text \<open>
  A message without a forward marker, and a message with one whose chat and
  sender are both present with different identifiers, takes the path of an
  ordinary message (enrichment, classification, dispatch by the type of the
  chat): the listener adds the effects of that path and changes nothing else,
  so the map of batches, the timers and the flushes are as they were.
\<close>

lemma on_message_ordinary:
  assumes "(\<not> present (forward_from message) \<and> \<not> present (forward_from_chat message)) \<or>
           (\<exists>c u. msg_chat message = Some c \<and> msg_from message = Some u \<and>
                  chat_id c \<noteq> user_id u)"
  shows "on_message cfg message md st =
           st\<lparr>effects := effects st @ dispatch_message cfg message md\<rparr> \<and>
         transactionMessages (on_message cfg message md st) = transactionMessages st \<and>
         timers (on_message cfg message md st) = timers st \<and>
         flushes (on_message cfg message md st) = flushes st"
  using assms by (auto simp: on_message_def emit_def)

lemma forwarded_post_keys:
  "msg_chat forwarded_post = Some \<lparr>chat_id = - 100, chat_type = ''channel''\<rparr>"
  "msg_from forwarded_post = None"
  "present (forward_from_chat forwarded_post)"
  "msg_text forwarded_post = Some ''news''" "msg_type forwarded_post = Some ''channel_post''"
  "reply_to_message forwarded_post = False" "entities forwarded_post = None"
  "no_attachments forwarded_post"
  by (simp_all add: forwarded_post_def channel_message_def blank_def present_def
      no_attachments_def)

text \<open>
  Claim C10 fails on the program. A message without a forward marker is
  dispatched to the handler of its event in the registry of its chat type,
  and so is a forwarded message whose sender is present and is not the chat;
  the map of batches, the timers and the flushes stay as they were. A
  forwarded post of a channel has no sender: its chat identifier is
  \<^verbatim>\<open>-100\<close>, its sender identifier is \<^verbatim>\<open>undefined\<close>, and the ordinary path
  would invoke the public handler of \<^verbatim>\<open>text\<close>; but the guard of line 169
  reads \<^verbatim>\<open>message.from.id\<close>, the listener raises a TypeError there, and
  nothing is enriched, classified or dispatched.
\<close>

theorem forwarded_post_without_sender_raises:
  "on_message text_config private_text text_md initial =
     initial\<lparr>effects := [Invoke Private ''text'' (PMessage private_text)]\<rparr> \<and>
   on_message text_config group_forward text_md initial =
     initial\<lparr>effects := [Invoke Public ''text'' (PMessage group_forward)]\<rparr> \<and>
   n_chatId (pack ''channel_post'' forwarded_post) = ''-100'' \<and>
   n_userId (pack ''channel_post'' forwarded_post) = ''undefined'' \<and>
   dispatch_message text_config forwarded_post text_md =
     [Invoke Public ''text'' (PMessage forwarded_post)] \<and>
   on_message text_config forwarded_post text_md initial =
     initial\<lparr>effects := [Unhandled TypeError]\<rparr>"
proof -
  have d1: "dispatch_message text_config private_text text_md =
      [Invoke Private ''text'' (PMessage private_text)]"
    by (simp add: dispatch_message_def extendMessage_plain plain_samples text_config_def
        sample_config_def getEventName_def text_md_def structural_def startsWith_slash_def
        private_text_keys invoke_guarded_def succeeding_def)
  have d2: "dispatch_message text_config group_forward text_md =
      [Invoke Public ''text'' (PMessage group_forward)]"
    by (simp add: dispatch_message_def extendMessage_plain plain_samples text_config_def
        sample_config_def getEventName_def text_md_def structural_def startsWith_slash_def
        group_forward_keys invoke_guarded_def succeeding_def)
  have d3: "dispatch_message text_config forwarded_post text_md =
      [Invoke Public ''text'' (PMessage forwarded_post)]"
    by (simp add: dispatch_message_def extendMessage_plain text_config_def
        sample_config_def getEventName_def text_md_def structural_def startsWith_slash_def
        forwarded_post_keys invoke_guarded_def succeeding_def)
  have m1: "on_message text_config private_text text_md initial =
      initial\<lparr>effects := [Invoke Private ''text'' (PMessage private_text)]\<rparr>"
    by (simp add: on_message_def emit_def present_def private_text_keys d1 initial_def)
  have m2: "on_message text_config group_forward text_md initial =
      initial\<lparr>effects := [Invoke Public ''text'' (PMessage group_forward)]\<rparr>"
    by (simp add: on_message_def emit_def group_forward_keys d2 initial_def)
  have m3: "on_message text_config forwarded_post text_md initial =
      initial\<lparr>effects := [Unhandled TypeError]\<rparr>"
    by (simp add: on_message_def emit_def forwarded_post_keys initial_def)
  have ids: "n_chatId (pack ''channel_post'' forwarded_post) = ''-100''"
    "n_userId (pack ''channel_post'' forwarded_post) = ''undefined''"
    by (simp_all add: pack_def forwarded_post_keys String_of_id_def String_of_int_def
        digits_of.simps)
  from m1 m2 ids d3 m3 show ?thesis by simp
qed

section \<open>The forward aggregator\<close>

lemma forwards_resolved:
  "resolved cfg forward1 = Inr forward1" "resolved cfg forward2 = Inr forward2"
  by (simp_all add: resolved_def extendMessage_plain plain_samples)

lemma forward_voice_resolved: "resolved forwards_config forward_voice = Inr forward_voice_enriched"
  by (simp add: resolved_def forwards_config_def sample_config_def
      extendMessage_def and_then_def ext_voice_def ext_document_def ext_video_def
      ext_audio_def ext_photo_def ext_video_note_def forward_voice_def forward_voice_enriched_def
      voice_photo_def voice_photo_enriched_def
      private_text_def blank_def truthy_str_def set_file_def getTelegramFile_def sample_files_def
      TELEGRAM_HOST_def String_of_str_def ext_photo_size_def resolvable_def)

lemma forwards_self:
  "present (forward_from forward1)" "present (forward_from forward2)"
  "present (forward_from forward_voice)"
  "msg_chat forward1 = Some \<lparr>chat_id = 5, chat_type = ''private''\<rparr>"
  "msg_chat forward2 = Some \<lparr>chat_id = 5, chat_type = ''private''\<rparr>"
  "msg_chat forward_voice = Some \<lparr>chat_id = 5, chat_type = ''private''\<rparr>"
  "msg_from forward1 = Some \<lparr>user_id = 5, is_bot = False\<rparr>"
  "msg_from forward2 = Some \<lparr>user_id = 5, is_bot = False\<rparr>"
  "msg_from forward_voice = Some \<lparr>user_id = 5, is_bot = False\<rparr>"
  by (simp_all add: forward1_def forward2_def forward_voice_def voice_photo_def
      private_text_def blank_def present_def)

lemma forwards_handler:
  "map_of (privateEvents forwards_config) ''message_forwards'' = Some succeeding"
  by (simp add: forwards_config_def sample_config_def)

lemmas loop_defs =
  on_message_def aggregate_def initial_def FORWARD_TIME_def on_timeout_def clearTimeout_def
  on_enriched_def on_returned_def finish_def emit_def succeeding_def
  forwards_resolved forward_voice_resolved forwards_self forwards_handler

text \<open>
  Claim C1 fails on the program: the entry of the chat is deleted in the
  \<^verbatim>\<open>finally\<close> block, after the resolver and the handler. A user forwards a
  voice message to their own chat. One second later the timer fires, and the
  entry is still in the map while the file of the message is looked up; a
  second forward that arrives then is pushed to the array of that entry, not
  to a new one; the handler is invoked with the first message alone, the
  entry still in the map; when the handler returns, the entry is deleted, the
  second message with it.
\<close>

theorem flush_deletes_entry_last:
  "map_option (\<lambda>s. (transactionMessages s 5, flushes s))
     (run forwards_config [Message forward_voice text_md, Elapse 1000, Timeout 0] initial) =
     Some (Some \<lparr>messages = [forward_voice], timeoutId = 0\<rparr>,
           [\<lparr>flush_id = 0, flush_key = 5, flush_messages = [forward_voice],
              flush_phase = Resolving\<rparr>]) \<and>
   map_option (\<lambda>s. transactionMessages s 5)
     (run forwards_config
        [Message forward_voice text_md, Elapse 1000, Timeout 0, Message forward2 text_md]
        initial) =
     Some (Some \<lparr>messages = [forward_voice, forward2], timeoutId = 1\<rparr>) \<and>
   map_option (\<lambda>s. (map_option timeoutId (transactionMessages s 5), effects s))
     (run forwards_config
        [Message forward_voice text_md, Elapse 1000, Timeout 0, Message forward2 text_md,
         Enriched 0] initial) =
     Some (Some 1, [Invoke Private ''message_forwards'' (PForwards [forward_voice_enriched])]) \<and>
   map_option (\<lambda>s. (transactionMessages s 5, flushes s, effects s))
     (run forwards_config
        [Message forward_voice text_md, Elapse 1000, Timeout 0, Message forward2 text_md,
         Enriched 0, Returned 0] initial) =
     Some (None, [], [Invoke Private ''message_forwards'' (PForwards [forward_voice_enriched])])"
  by (simp add: loop_defs)

text \<open>
  Claim C3 holds in its first half and fails in its second. Two forwards
  200 ms apart are flushed once, together and in the order they came, one
  second after the second one. Two forwards 1500 ms apart are flushed in two
  batches when the first flush has ended before the second forward arrives;
  when the handler of the first flush has not returned yet, the second
  forward joins the entry that the flush then deletes, and its own timer finds
  no entry: one batch is flushed and the second message is never delivered.
\<close>

theorem forward_during_flush_is_dropped:
  "map_option (\<lambda>s. (effects s, transactionMessages s 5, timers s, flushes s))
     (run forwards_config
        [Message forward1 text_md, Elapse 200, Message forward2 text_md, Elapse 1000, Timeout 1,
         Enriched 0, Returned 0] initial) =
     Some ([Invoke Private ''message_forwards'' (PForwards [forward1, forward2])], None, [], []) \<and>
   map_option (\<lambda>s. (effects s, transactionMessages s 5, timers s, flushes s))
     (run forwards_config
        [Message forward1 text_md, Elapse 1000, Timeout 0, Enriched 0, Returned 0, Elapse 500,
         Message forward2 text_md, Elapse 1000, Timeout 1, Enriched 1, Returned 1] initial) =
     Some ([Invoke Private ''message_forwards'' (PForwards [forward1]),
            Invoke Private ''message_forwards'' (PForwards [forward2])], None, [], []) \<and>
   map_option (\<lambda>s. (effects s, transactionMessages s 5, timers s, flushes s))
     (run forwards_config
        [Message forward1 text_md, Elapse 1000, Timeout 0, Enriched 0, Elapse 500,
         Message forward2 text_md, Returned 0, Elapse 1000, Timeout 1] initial) =
     Some ([Invoke Private ''message_forwards'' (PForwards [forward1])], None, [], [])"
  by (simp add: loop_defs)

section \<open>The attachment resolver\<close>

subsection \<open>Each step as a step on its key\<close>

lemma ext_voice_key:
  "ext_voice g t m =
     (fst (opt_step (guarded (set_file g t)) (voice m)),
      m\<lparr>voice := snd (opt_step (guarded (set_file g t)) (voice m))\<rparr>)"
  by (auto simp: ext_voice_def opt_step_def guarded_def split: option.splits prod.splits)

lemma ext_document_key:
  "ext_document g t m =
     (fst (opt_step (guarded (set_file_and_thumb g t)) (document m)),
      m\<lparr>document := snd (opt_step (guarded (set_file_and_thumb g t)) (document m))\<rparr>)"
  by (auto simp: ext_document_def opt_step_def guarded_def split: option.splits prod.splits)

lemma ext_video_key:
  "ext_video g t m =
     (fst (opt_step (guarded (set_file_and_thumb g t)) (video m)),
      m\<lparr>video := snd (opt_step (guarded (set_file_and_thumb g t)) (video m))\<rparr>)"
  by (auto simp: ext_video_def opt_step_def guarded_def split: option.splits prod.splits)

lemma ext_audio_key:
  "ext_audio g t m =
     (fst (opt_step (guarded (set_file g t)) (audio m)),
      m\<lparr>audio := snd (opt_step (guarded (set_file g t)) (audio m))\<rparr>)"
  by (auto simp: ext_audio_def opt_step_def guarded_def split: option.splits prod.splits)

lemma ext_photo_key:
  "ext_photo g t m =
     (fst (photo_step g t (photo m)), m\<lparr>photo := snd (photo_step g t (photo m))\<rparr>)"
  by (auto simp: ext_photo_def photo_step_def split: option.splits sum.splits)

lemma ext_video_note_key:
  "ext_video_note g t m =
     (fst (opt_step (set_file_and_thumb g t) (video_note m)),
      m\<lparr>video_note := snd (opt_step (set_file_and_thumb g t) (video_note m))\<rparr>)"
  by (auto simp: ext_video_note_def opt_step_def split: option.splits prod.splits)

lemmas step_keys =
  ext_voice_key ext_document_key ext_video_key ext_audio_key ext_photo_key ext_video_note_key

lemma and_then_if: "and_then f g m = (if fst (f m) = None then g (snd (f m)) else f m)"
  by (cases "f m"; cases "fst (f m)") (auto simp: and_then_def)

subsection \<open>Resolving twice\<close>

lemma set_file_twice: "set_file g t (snd (set_file g t a)) = set_file g t a"
  by (auto simp: set_file_def split: sum.splits)

lemma set_file_file_id: "file_id (snd (set_file g t a)) = file_id a"
  by (auto simp: set_file_def split: sum.splits)

lemma set_file_and_thumb_twice:
  "set_file_and_thumb g t (snd (set_file_and_thumb g t a)) = set_file_and_thumb g t a"
  by (auto simp: set_file_and_thumb_def set_file_def set_thumb_file_def
      split: sum.splits option.splits)

lemma set_file_and_thumb_file_id: "file_id (snd (set_file_and_thumb g t a)) = file_id a"
  by (auto simp: set_file_and_thumb_def set_file_def set_thumb_file_def
      split: sum.splits option.splits)

lemma guarded_twice:
  assumes "\<And>a. b (snd (b a)) = b a" and "\<And>a. file_id (snd (b a)) = file_id a"
  shows "guarded b (snd (guarded b a)) = guarded b a"
  using assms by (simp add: guarded_def)

lemma opt_step_twice:
  assumes "\<And>a. b (snd (b a)) = b a"
  shows "opt_step b (snd (opt_step b x)) = opt_step b x"
proof (cases x)
  case None
  then show ?thesis by (simp add: opt_step_def)
next
  case (Some a)
  obtain r a' where ba: "b a = (r, a')" by (cases "b a")
  with assms [of a] have "b a' = (r, a')" by simp
  with Some ba show ?thesis by (simp add: opt_step_def)
qed

lemma resolvable_photo_file: "resolvable (p\<lparr>photo_file := f\<rparr>) = resolvable p"
  by (simp add: resolvable_def)

lemma ext_photo_size_twice:
  "ext_photo_size g t p = Inr p' \<Longrightarrow> ext_photo_size g t p' = Inr p'"
  by (auto simp: ext_photo_size_def resolvable_photo_file split: if_splits sum.splits)

lemma Promise_all_twice:
  "Promise_all (map (ext_photo_size g t) ps) = Inr ps' \<Longrightarrow>
   Promise_all (map (ext_photo_size g t) ps') = Inr ps'"
proof (induction ps arbitrary: ps')
  case Nil
  then show ?case by simp
next
  case (Cons p ps)
  then show ?case
    by (cases "ext_photo_size g t p"; cases "Promise_all (map (ext_photo_size g t) ps)")
       (auto simp: ext_photo_size_twice)
qed

lemma photo_step_twice: "photo_step g t (snd (photo_step g t x)) = photo_step g t x"
  by (auto simp: photo_step_def Promise_all_twice split: option.splits sum.splits)

lemma voice_step_twice:
  "opt_step (guarded (set_file g t)) (snd (opt_step (guarded (set_file g t)) x)) =
   opt_step (guarded (set_file g t)) x"
  by (rule opt_step_twice) (rule guarded_twice, rule set_file_twice, rule set_file_file_id)

lemma document_step_twice:
  "opt_step (guarded (set_file_and_thumb g t))
     (snd (opt_step (guarded (set_file_and_thumb g t)) x)) =
   opt_step (guarded (set_file_and_thumb g t)) x"
  by (rule opt_step_twice)
     (rule guarded_twice, rule set_file_and_thumb_twice, rule set_file_and_thumb_file_id)

lemma video_note_step_twice:
  "opt_step (set_file_and_thumb g t) (snd (opt_step (set_file_and_thumb g t) x)) =
   opt_step (set_file_and_thumb g t) x"
  by (rule opt_step_twice) (rule set_file_and_thumb_twice)

lemma commutes_and_then:
  assumes 1: "commutes f g1" and 2: "commutes f g2"
  shows "commutes f (and_then g1 g2)"
  unfolding commutes_def
proof (intro allI conjI)
  fix m
  let ?x = "snd (g1 m)"
  have a1: "fst (g1 (snd (f m))) = fst (g1 m)"
    and a2: "snd (g1 (snd (f m))) = snd (f ?x)"
    and a3: "fst (f ?x) = fst (f m)"
    using 1 unfolding commutes_def by auto
  have b1: "fst (f (snd (g2 ?x))) = fst (f ?x)"
    and b2: "fst (g2 (snd (f ?x))) = fst (g2 ?x)"
    and b3: "snd (f (snd (g2 ?x))) = snd (g2 (snd (f ?x)))"
    using 2 unfolding commutes_def by auto
  show "fst (f (snd (and_then g1 g2 m))) = fst (f m)"
    by (simp add: and_then_if a3 b1)
  show "fst (and_then g1 g2 (snd (f m))) = fst (and_then g1 g2 m)"
    by (simp add: and_then_if a1 a2 b2)
  show "snd (f (snd (and_then g1 g2 m))) = snd (and_then g1 g2 (snd (f m)))"
    by (simp add: and_then_if a1 a2 b3)
qed

lemma idem_and_then:
  assumes f: "idem f" and g: "idem g" and c: "commutes f g"
  shows "idem (and_then f g)"
  unfolding idem_def
proof
  fix m
  let ?m1 = "snd (f m)"
  have ff: "f ?m1 = f m" using f by (simp add: idem_def)
  have gg: "g (snd (g ?m1)) = g ?m1" using g by (simp add: idem_def)
  have c1: "fst (f (snd (g ?m1))) = fst (f ?m1)"
    and c3: "snd (f (snd (g ?m1))) = snd (g (snd (f ?m1)))"
    using c unfolding commutes_def by auto
  show "and_then f g (snd (and_then f g m)) = and_then f g m"
  proof (cases "fst (f m) = None")
    case True
    have "and_then f g (snd (g ?m1)) = g (snd (f (snd (g ?m1))))"
      by (simp add: and_then_if c1 ff True)
    also have "\<dots> = g ?m1" by (simp add: c3 ff gg)
    finally have "and_then f g (snd (g ?m1)) = g ?m1" .
    moreover have "and_then f g m = g ?m1" using True by (simp add: and_then_if)
    ultimately show ?thesis by simp
  next
    case False
    then have e: "and_then f g m = f m" by (auto simp: and_then_if)
    from False have "and_then f g (snd (f m)) = f m" by (auto simp: and_then_if ff)
    with e show ?thesis by simp
  qed
qed

lemma steps_idem:
  "idem (ext_voice g t)" "idem (ext_document g t)" "idem (ext_video g t)"
  "idem (ext_audio g t)" "idem (ext_photo g t)" "idem (ext_video_note g t)"
  by (simp_all add: idem_def step_keys voice_step_twice document_step_twice
      video_note_step_twice photo_step_twice)

lemma steps_commute:
  "commutes (ext_voice g t) (ext_document g t)"
  "commutes (ext_voice g t) (ext_video g t)"
  "commutes (ext_voice g t) (ext_audio g t)"
  "commutes (ext_voice g t) (ext_photo g t)"
  "commutes (ext_voice g t) (ext_video_note g t)"
  "commutes (ext_document g t) (ext_video g t)"
  "commutes (ext_document g t) (ext_audio g t)"
  "commutes (ext_document g t) (ext_photo g t)"
  "commutes (ext_document g t) (ext_video_note g t)"
  "commutes (ext_video g t) (ext_audio g t)"
  "commutes (ext_video g t) (ext_photo g t)"
  "commutes (ext_video g t) (ext_video_note g t)"
  "commutes (ext_audio g t) (ext_photo g t)"
  "commutes (ext_audio g t) (ext_video_note g t)"
  "commutes (ext_photo g t) (ext_video_note g t)"
  by (simp_all add: commutes_def step_keys)

lemma extendMessage_idem: "idem (extendMessage g t)"
  unfolding extendMessage_def
  by (intro idem_and_then commutes_and_then steps_idem steps_commute)

text \<open>Every file that enrichment writes comes from \<^verbatim>\<open>getTelegramFile\<close>.\<close>

lemma written_set_file: "set (att_files (snd (set_file g t a))) \<subseteq> set (att_files a) \<union> written g t"
  by (auto simp: set_file_def att_files_def written_def split: sum.splits option.splits)

lemma written_set_thumb_file:
  "set (att_files (snd (set_thumb_file g t a))) \<subseteq> set (att_files a) \<union> written g t"
  by (auto simp: set_thumb_file_def att_files_def written_def split: sum.splits option.splits)

lemma written_set_file_and_thumb:
  "set (att_files (snd (set_file_and_thumb g t a))) \<subseteq> set (att_files a) \<union> written g t"
proof (cases "set_file g t a")
  case (Pair r a')
  then have 1: "set (att_files a') \<subseteq> set (att_files a) \<union> written g t"
    using written_set_file [of g t a] by simp
  show ?thesis
  proof (cases r)
    case None
    with Pair have "set_file_and_thumb g t a = set_thumb_file g t a'"
      by (simp add: set_file_and_thumb_def)
    with 1 written_set_thumb_file [of g t a'] show ?thesis by auto
  next
    case (Some e)
    with Pair have "set_file_and_thumb g t a = (Some e, a')"
      by (simp add: set_file_and_thumb_def)
    with 1 show ?thesis by simp
  qed
qed

lemma written_guarded:
  assumes "\<And>a. set (att_files (snd (b a))) \<subseteq> set (att_files a) \<union> written g t"
  shows "set (att_files (snd (guarded b a))) \<subseteq> set (att_files a) \<union> written g t"
  using assms by (simp add: guarded_def)

lemma written_opt_step:
  assumes "\<And>a. set (att_files (snd (b a))) \<subseteq> set (att_files a) \<union> written g t"
  shows "set (block_files (snd (opt_step b x))) \<subseteq> set (block_files x) \<union> written g t"
proof (cases x)
  case None
  then show ?thesis by (simp add: opt_step_def block_files_def)
next
  case (Some a)
  with assms [of a] show ?thesis by (cases "b a") (simp add: opt_step_def block_files_def)
qed

lemma written_voice_step:
  "set (block_files (snd (opt_step (guarded (set_file g t)) x))) \<subseteq> set (block_files x) \<union> written g t"
  by (rule written_opt_step) (rule written_guarded, rule written_set_file)

lemma written_document_step:
  "set (block_files (snd (opt_step (guarded (set_file_and_thumb g t)) x))) \<subseteq>
   set (block_files x) \<union> written g t"
  by (rule written_opt_step) (rule written_guarded, rule written_set_file_and_thumb)

lemma written_video_note_step:
  "set (block_files (snd (opt_step (set_file_and_thumb g t) x))) \<subseteq> set (block_files x) \<union> written g t"
  by (rule written_opt_step) (rule written_set_file_and_thumb)

lemma written_ext_photo_size:
  "ext_photo_size g t p = Inr p' \<Longrightarrow>
   set (photo_size_files p') \<subseteq> set (photo_size_files p) \<union> written g t"
  by (auto simp: ext_photo_size_def photo_size_files_def written_def
      split: if_splits sum.splits option.splits)

lemma written_Promise_all:
  "Promise_all (map (ext_photo_size g t) ps) = Inr ps' \<Longrightarrow>
   set (photo_files (Some ps')) \<subseteq> set (photo_files (Some ps)) \<union> written g t"
proof (induction ps arbitrary: ps')
  case Nil
  then show ?case by (simp add: photo_files_def)
next
  case (Cons p ps)
  from Cons.prems obtain q qs where q: "ext_photo_size g t p = Inr q"
    and qs: "Promise_all (map (ext_photo_size g t) ps) = Inr qs" and ps': "ps' = q # qs"
    by (cases "ext_photo_size g t p"; cases "Promise_all (map (ext_photo_size g t) ps)") auto
  from Cons.IH [OF qs] written_ext_photo_size [OF q] show ?case
    unfolding ps' by (auto simp: photo_files_def)
qed

lemma written_photo_step:
  "set (photo_files (snd (photo_step g t x))) \<subseteq> set (photo_files x) \<union> written g t"
  using written_Promise_all [of g t]
  by (auto simp: photo_step_def split: option.splits sum.splits)

lemma written_and_then:
  assumes "\<And>m. set (resolved_files (snd (f m))) \<subseteq> set (resolved_files m) \<union> written g t"
    and "\<And>m. set (resolved_files (snd (h m))) \<subseteq> set (resolved_files m) \<union> written g t"
  shows "set (resolved_files (snd (and_then f h m))) \<subseteq> set (resolved_files m) \<union> written g t"
  using assms(1) [of m] assms(2) [of "snd (f m)"] by (auto simp: and_then_if)

lemma written_steps:
  "set (resolved_files (snd (ext_voice g t m))) \<subseteq> set (resolved_files m) \<union> written g t"
  "set (resolved_files (snd (ext_document g t m))) \<subseteq> set (resolved_files m) \<union> written g t"
  "set (resolved_files (snd (ext_video g t m))) \<subseteq> set (resolved_files m) \<union> written g t"
  "set (resolved_files (snd (ext_audio g t m))) \<subseteq> set (resolved_files m) \<union> written g t"
  "set (resolved_files (snd (ext_photo g t m))) \<subseteq> set (resolved_files m) \<union> written g t"
  "set (resolved_files (snd (ext_video_note g t m))) \<subseteq> set (resolved_files m) \<union> written g t"
proof -
  show "set (resolved_files (snd (ext_voice g t m))) \<subseteq> set (resolved_files m) \<union> written g t"
    using written_voice_step [of g t "voice m"]
    by (simp add: step_keys resolved_files_def) blast
  show "set (resolved_files (snd (ext_document g t m))) \<subseteq> set (resolved_files m) \<union> written g t"
    using written_document_step [of g t "document m"]
    by (simp add: step_keys resolved_files_def) blast
  show "set (resolved_files (snd (ext_video g t m))) \<subseteq> set (resolved_files m) \<union> written g t"
    using written_document_step [of g t "video m"]
    by (simp add: step_keys resolved_files_def) blast
  show "set (resolved_files (snd (ext_audio g t m))) \<subseteq> set (resolved_files m) \<union> written g t"
    using written_voice_step [of g t "audio m"]
    by (simp add: step_keys resolved_files_def) blast
  show "set (resolved_files (snd (ext_photo g t m))) \<subseteq> set (resolved_files m) \<union> written g t"
    using written_photo_step [of g t "photo m"]
    by (simp add: step_keys resolved_files_def) blast
  show "set (resolved_files (snd (ext_video_note g t m))) \<subseteq> set (resolved_files m) \<union> written g t"
    using written_video_note_step [of g t "video_note m"]
    by (simp add: step_keys resolved_files_def) blast
qed

lemma written_extendMessage:
  "set (resolved_files (snd (extendMessage g t m))) \<subseteq> set (resolved_files m) \<union> written g t"
  unfolding extendMessage_def
  by (intro written_and_then written_steps)

lemma voice_photo_extended:
  "extendMessage sample_files ''T0KEN'' voice_photo = (None, voice_photo_enriched)"
  by (simp add: extendMessage_def and_then_def ext_voice_def ext_document_def ext_video_def
      ext_audio_def ext_photo_def ext_video_note_def voice_photo_def voice_photo_enriched_def
      private_text_def blank_def truthy_str_def set_file_def getTelegramFile_def sample_files_def
      TELEGRAM_HOST_def String_of_str_def ext_photo_size_def resolvable_def)

text \<open>
  Claim C8. The file lookup is a function: it answers the same identifier the
  same way. Then enriching the message that an enrichment left gives the same
  outcome and the same message, so the same \<^verbatim>\<open>file_path\<close> and \<^verbatim>\<open>url\<close> in
  every block; in particular a message that was enriched without error is
  returned as it is. Every resolved file in the message, unless it was there
  before, holds the file path the lookup returned for the file identifier
  beside it, and as \<^verbatim>\<open>url\<close> the text \<^verbatim>\<open>https://api.telegram.org/file/bot\<close>,
  the token, a slash and that file path.
\<close>

theorem extendMessage_idempotent:
  "extendMessage g t (snd (extendMessage g t m)) = extendMessage g t m \<and>
   (extendMessage g t m = (None, m') \<longrightarrow> extendMessage g t m' = (None, m')) \<and>
   (g fileId = Inr fp \<longrightarrow>
      getTelegramFile g t fileId =
        Inr \<lparr> file_path = fp,
              url = ''https://api.telegram.org/file/bot'' @ t @ ''/'' @ String_of_str fp \<rparr>) \<and>
   (\<forall>(fid, f) \<in> set (resolved_files (snd (extendMessage g t m))).
      (fid, f) \<in> set (resolved_files m) \<or>
      (\<exists>p. g fid = Inr p \<and>
           f = \<lparr> file_path = p,
                 url = ''https://api.telegram.org/file/bot'' @ t @ ''/'' @ String_of_str p \<rparr>))"
proof -
  have twice: "extendMessage g t (snd (extendMessage g t m)) = extendMessage g t m"
    using extendMessage_idem [of g t] by (simp add: idem_def)
  then have again: "extendMessage g t m = (None, m') \<longrightarrow> extendMessage g t m' = (None, m')"
    by auto
  have url: "g fileId = Inr fp \<longrightarrow>
      getTelegramFile g t fileId =
        Inr \<lparr> file_path = fp,
              url = ''https://api.telegram.org/file/bot'' @ t @ ''/'' @ String_of_str fp \<rparr>"
    by (simp add: getTelegramFile_def TELEGRAM_HOST_def)
  have "\<And>fid f. getTelegramFile g t fid = Inr f \<Longrightarrow>
      \<exists>p. g fid = Inr p \<and>
          f = \<lparr> file_path = p,
                url = ''https://api.telegram.org/file/bot'' @ t @ ''/'' @ String_of_str p \<rparr>"
    by (auto simp: getTelegramFile_def TELEGRAM_HOST_def split: sum.splits)
  with written_extendMessage [of g t m]
  have files: "\<forall>(fid, f) \<in> set (resolved_files (snd (extendMessage g t m))).
      (fid, f) \<in> set (resolved_files m) \<or>
      (\<exists>p. g fid = Inr p \<and>
           f = \<lparr> file_path = p,
                 url = ''https://api.telegram.org/file/bot'' @ t @ ''/'' @ String_of_str p \<rparr>)"
    by (fastforce simp: written_def)
  from twice again url files show ?thesis by blast
qed

theorem extendMessage_idempotent_witness:
  "extendMessage sample_files ''T0KEN'' voice_photo_enriched = (None, voice_photo_enriched) \<and>
   getTelegramFile sample_files ''T0KEN'' (Some ''v1'') =
     Inr \<lparr> file_path = Some ''voice/file_1.oga'',
           url = ''https://api.telegram.org/file/botT0KEN/voice/file_1.oga'' \<rparr>"
  using extendMessage_idempotent [of sample_files "''T0KEN''" voice_photo voice_photo_enriched
      "Some ''v1''" "Some ''voice/file_1.oga''"]
  by (simp add: voice_photo_extended sample_files_def String_of_str_def)

subsection \<open>What enrichment leaves alone\<close>

lemma kept_refl: "kept p p"
  by (simp add: kept_def)

lemma kept_trans: "kept p q \<Longrightarrow> kept q r \<Longrightarrow> kept p r"
  unfolding kept_def
  by (cases p; cases q; cases r) (auto simp: resolvable_def)

lemma kept_erase: "kept p q \<Longrightarrow> erase_photo q = erase_photo p"
  unfolding kept_def erase_photo_def by (cases p; cases q) auto

lemma photos_refl: "rel_option (list_all2 kept) x x"
  by (cases x) (simp_all add: list_all2_refl kept_refl)

lemma photos_trans:
  "rel_option (list_all2 kept) x y \<Longrightarrow> rel_option (list_all2 kept) y z \<Longrightarrow>
   rel_option (list_all2 kept) x z"
  by (cases x; cases y; cases z) (auto elim: list_all2_trans [rotated] intro: kept_trans)

lemma frame_and_then:
  assumes "frame f" and "frame g"
  shows "frame (and_then f g)"
  unfolding frame_def
proof (intro allI conjI)
  fix m
  have f1: "erase_files (snd (f m)) = erase_files m"
    and f2: "rel_option (list_all2 kept) (photo m) (photo (snd (f m)))"
    using assms(1) by (simp_all add: frame_def)
  have g1: "erase_files (snd (g (snd (f m)))) = erase_files (snd (f m))"
    and g2: "rel_option (list_all2 kept) (photo (snd (f m))) (photo (snd (g (snd (f m)))))"
    using assms(2) by (simp_all add: frame_def)
  show "erase_files (snd (and_then f g m)) = erase_files m"
    by (simp add: and_then_if f1 g1)
  show "rel_option (list_all2 kept) (photo m) (photo (snd (and_then f g m)))"
    using f2 photos_trans [OF f2 g2] by (simp add: and_then_if)
qed

lemma erase_set_file: "erase_att (snd (set_file g t a)) = erase_att a"
  by (auto simp: set_file_def erase_att_def split: sum.splits)

lemma erase_set_thumb_file: "erase_att (snd (set_thumb_file g t a)) = erase_att a"
  by (auto simp: set_thumb_file_def erase_att_def erase_thumb_def split: sum.splits option.splits)

lemma erase_set_file_and_thumb: "erase_att (snd (set_file_and_thumb g t a)) = erase_att a"
proof (cases "set_file g t a")
  case (Pair r a')
  then have "erase_att a' = erase_att a"
    using erase_set_file [of g t a] by simp
  with Pair show ?thesis
    using erase_set_thumb_file [of g t a']
    by (cases r) (simp_all add: set_file_and_thumb_def)
qed

lemma erase_guarded:
  assumes "\<And>a. erase_att (snd (b a)) = erase_att a"
  shows "erase_att (snd (guarded b a)) = erase_att a"
  using assms by (simp add: guarded_def)

lemma erase_opt_step:
  assumes "\<And>a. erase_att (snd (b a)) = erase_att a"
  shows "map_option erase_att (snd (opt_step b x)) = map_option erase_att x"
proof (cases x)
  case None
  then show ?thesis by (simp add: opt_step_def)
next
  case (Some a)
  with assms [of a] show ?thesis by (cases "b a") (simp add: opt_step_def)
qed

lemma erase_voice_step:
  "map_option erase_att (snd (opt_step (guarded (set_file g t)) x)) = map_option erase_att x"
  by (rule erase_opt_step) (rule erase_guarded, rule erase_set_file)

lemma erase_document_step:
  "map_option erase_att (snd (opt_step (guarded (set_file_and_thumb g t)) x)) =
   map_option erase_att x"
  by (rule erase_opt_step) (rule erase_guarded, rule erase_set_file_and_thumb)

lemma erase_video_note_step:
  "map_option erase_att (snd (opt_step (set_file_and_thumb g t) x)) = map_option erase_att x"
  by (rule erase_opt_step) (rule erase_set_file_and_thumb)

lemma ext_photo_size_kept: "ext_photo_size g t p = Inr p' \<Longrightarrow> kept p p'"
  by (cases p) (auto simp: ext_photo_size_def kept_def split: if_splits sum.splits)

lemma Promise_all_kept:
  "Promise_all (map (ext_photo_size g t) ps) = Inr ps' \<Longrightarrow> list_all2 kept ps ps'"
proof (induction ps arbitrary: ps')
  case Nil
  then show ?case by simp
next
  case (Cons p ps)
  then show ?case
    by (cases "ext_photo_size g t p"; cases "Promise_all (map (ext_photo_size g t) ps)")
       (auto simp: ext_photo_size_kept)
qed

lemma photo_step_kept: "rel_option (list_all2 kept) x (snd (photo_step g t x))"
  by (auto simp: photo_step_def Promise_all_kept list_all2_refl kept_refl
      split: option.splits sum.splits)

lemma kept_erase_list: "list_all2 kept ps ps' \<Longrightarrow> map erase_photo ps' = map erase_photo ps"
  by (induction rule: list_all2_induct) (simp_all add: kept_erase)

lemma photo_step_erase:
  "map_option (map erase_photo) (snd (photo_step g t x)) = map_option (map erase_photo) x"
  using photo_step_kept [of x g t]
  by (cases x; cases "snd (photo_step g t x)") (auto simp: kept_erase_list)

lemma steps_frame:
  "frame (ext_voice g t)" "frame (ext_document g t)" "frame (ext_video g t)"
  "frame (ext_audio g t)" "frame (ext_photo g t)" "frame (ext_video_note g t)"
  by (simp_all add: frame_def step_keys erase_files_def erase_voice_step erase_document_step
      erase_video_note_step photo_step_erase photo_step_kept photos_refl)

lemma extendMessage_frame: "frame (extendMessage g t)"
  unfolding extendMessage_def by (intro frame_and_then steps_frame)

text \<open>
  Claim C9. Whether enrichment succeeds or stops with an error, the message
  it leaves differs from the one it was given only in the keys \<^verbatim>\<open>file\<close> of
  the attachment blocks, of their \<^verbatim>\<open>thumb\<close> and of the photo variants: with
  those keys erased the two are the same message, so every other key and the
  rest of every block is unchanged. The photo array keeps its length and
  order, each variant being the one at the same place but for its key
  \<^verbatim>\<open>file\<close>, and a variant without a positive \<^verbatim>\<open>file_size\<close> or without a
  \<^verbatim>\<open>file_id\<close> is unchanged. A message without any of the six blocks is
  returned as it is, without error.
\<close>

theorem extendMessage_changes_files_only:
  "erase_files (snd (extendMessage g t m)) = erase_files m \<and>
   msg_chat (snd (extendMessage g t m)) = msg_chat m \<and>
   msg_from (snd (extendMessage g t m)) = msg_from m \<and>
   forward_from (snd (extendMessage g t m)) = forward_from m \<and>
   forward_from_chat (snd (extendMessage g t m)) = forward_from_chat m \<and>
   contact (snd (extendMessage g t m)) = contact m \<and>
   msg_text (snd (extendMessage g t m)) = msg_text m \<and>
   msg_type (snd (extendMessage g t m)) = msg_type m \<and>
   reply_to_message (snd (extendMessage g t m)) = reply_to_message m \<and>
   entities (snd (extendMessage g t m)) = entities m \<and>
   msg_other (snd (extendMessage g t m)) = msg_other m \<and>
   rel_option (list_all2 kept) (photo m) (photo (snd (extendMessage g t m))) \<and>
   (no_attachments m \<longrightarrow> extendMessage g t m = (None, m))"
proof -
  let ?m' = "snd (extendMessage g t m)"
  have e: "erase_files ?m' = erase_files m"
    and p: "rel_option (list_all2 kept) (photo m) (photo ?m')"
    using extendMessage_frame [of g t] by (simp_all add: frame_def)
  have "msg_chat (erase_files ?m') = msg_chat (erase_files m)"
    "msg_from (erase_files ?m') = msg_from (erase_files m)"
    "forward_from (erase_files ?m') = forward_from (erase_files m)"
    "forward_from_chat (erase_files ?m') = forward_from_chat (erase_files m)"
    "contact (erase_files ?m') = contact (erase_files m)"
    "msg_text (erase_files ?m') = msg_text (erase_files m)"
    "msg_type (erase_files ?m') = msg_type (erase_files m)"
    "reply_to_message (erase_files ?m') = reply_to_message (erase_files m)"
    "entities (erase_files ?m') = entities (erase_files m)"
    "msg_other (erase_files ?m') = msg_other (erase_files m)"
    by (simp_all only: e)
  then have others:
    "msg_chat ?m' = msg_chat m" "msg_from ?m' = msg_from m"
    "forward_from ?m' = forward_from m" "forward_from_chat ?m' = forward_from_chat m"
    "contact ?m' = contact m" "msg_text ?m' = msg_text m" "msg_type ?m' = msg_type m"
    "reply_to_message ?m' = reply_to_message m" "entities ?m' = entities m"
    "msg_other ?m' = msg_other m"
    by (simp_all add: erase_files_def)
  from e p others extendMessage_plain [of m g t] show ?thesis by simp
qed

theorem extendMessage_changes_files_only_witness:
  "erase_files voice_photo_enriched = erase_files voice_photo \<and>
   rel_option (list_all2 kept) (photo voice_photo) (photo voice_photo_enriched) \<and>
   extendMessage sample_files ''T0KEN'' private_text = (None, private_text)"
  using extendMessage_changes_files_only [of sample_files "''T0KEN''" voice_photo]
    extendMessage_changes_files_only [of sample_files "''T0KEN''" private_text]
  by (simp add: voice_photo_extended plain_samples)


end
